theory Spec2Isabelle
  imports Complex_Main "HOL-Library.Product_Lexorder"
begin

section \<open>Weekly trend / review report: data alignment pipeline\<close>

text \<open>
  A shallow embedding of the data part of \<^verbatim>\<open>make_portfolio_report.py\<close>: deriving the ISO
  week key of every row, the two weekly aggregates, their inner join, the week index, the
  call of the two correlation functions, the choice of the trend metric column, and the
  font resolver of the PDF renderer.  Chart drawing and page layout are not modelled.

  Numbers that pandas keeps as 64-bit floats are modelled by exact reals; a missing value
  (NaN in a numeric column) is \<open>None\<close>.
\<close>

subsection \<open>Python exceptions that reach the top level\<close>

datatype py_error = AttributeError | KeyError | TTFError | TypeError | ValueError

subsection \<open>ISO calendar of a date\<close>

text \<open>
  \<^verbatim>\<open>.dt.isocalendar()\<close> is the proleptic Gregorian ISO 8601 calendar.  The functions below
  follow the usual ordinal-day computation: the ordinal of a date counts days from
  0001-01-01 (ordinal 1, a Monday); ISO week 1 of a year is the week (Monday to Sunday)
  that holds the year's first Thursday.  Python's \<^verbatim>\<open>//\<close> and \<^verbatim>\<open>%\<close> on integers round to
  minus infinity, as \<open>div\<close> and \<open>mod\<close> on \<open>int\<close> do.  The table of \<open>days_before_month\<close> is
  read at a month in 1..12 only: a timestamp holds no other month.
\<close>

definition is_leap :: "int \<Rightarrow> bool" where
  "is_leap y = (y mod 4 = 0 \<and> (y mod 100 \<noteq> 0 \<or> y mod 400 = 0))"

definition days_before_year :: "int \<Rightarrow> int" where
  "days_before_year y = (y - 1) * 365 + (y - 1) div 4 - (y - 1) div 100 + (y - 1) div 400"

definition days_before_month :: "int \<Rightarrow> int \<Rightarrow> int" where
  "days_before_month y m =
     [0, 0, 31, 59, 90, 120, 151, 181, 212, 243, 273, 304, 334] ! nat m
       + (if 2 < m \<and> is_leap y then 1 else 0)"

definition ymd2ord :: "int \<Rightarrow> int \<Rightarrow> int \<Rightarrow> int" where
  "ymd2ord y m d = days_before_year y + days_before_month y m + d"

definition isoweek1monday :: "int \<Rightarrow> int" where
  "isoweek1monday y =
     (let firstday = ymd2ord y 1 1;
          firstweekday = (firstday + 6) mod 7;
          week1monday = firstday - firstweekday
      in if 3 < firstweekday then week1monday + 7 else week1monday)"

definition isocalendar :: "int \<Rightarrow> int \<Rightarrow> int \<Rightarrow> int \<times> int" where
  "isocalendar y m d =
     (let today = ymd2ord y m d;
          week = (today - isoweek1monday y) div 7
      in if week < 0 then (y - 1, (today - isoweek1monday (y - 1)) div 7 + 1)
         else if 52 \<le> week \<and> isoweek1monday (y + 1) \<le> today then (y + 1, 1)
         else (y, week + 1))"

text \<open>
  The dates of the proleptic Gregorian calendar: what a cell that parses can hold.
\<close>

definition days_in_month :: "int \<Rightarrow> int \<Rightarrow> int" where
  "days_in_month y m =
     (if m = 2 then (if is_leap y then 29 else 28)
      else if m = 4 \<or> m = 6 \<or> m = 9 \<or> m = 11 then 30 else 31)"

definition valid_date :: "int \<Rightarrow> int \<Rightarrow> int \<Rightarrow> bool" where
  "valid_date y m d = (1 \<le> m \<and> m \<le> 12 \<and> 1 \<le> d \<and> d \<le> days_in_month y m)"

subsection \<open>Timestamp cells\<close>

text \<open>
  What a cell of the \<^verbatim>\<open>at\<close> column of the review file, or of the \<^verbatim>\<open>date\<close> column of the
  trend file, holds: text that parses to a date (year, month in 1..12, day of that month;
  the time of day plays no part in the week key), an empty cell, or text that is no date.
\<close>

datatype raw_time = Stamp int int int | Blank | Garbage

fun iso_key :: "raw_time \<Rightarrow> (int \<times> int) option" where
  "iso_key (Stamp y m d) = Some (isocalendar y m d)"
| "iso_key Blank = None"
| "iso_key Garbage = None"

text \<open>
  Lines 83, 86, 87.  \<^verbatim>\<open>read_csv(..., parse_dates=["at"])\<close> leaves the column as text when a
  cell does not parse, and also when the file has no data row; \<^verbatim>\<open>.dt\<close> on a text column
  raises AttributeError.  An empty cell parses to NaT, whose ISO year is missing, which
  \<^verbatim>\<open>.astype(int)\<close> refuses with a ValueError.
\<close>

definition reviews_iso :: "raw_time list \<Rightarrow> py_error + (int \<times> int) list" where
  "reviews_iso ats =
     (if ats = [] \<or> Garbage \<in> set ats then Inl AttributeError
      else case those (map iso_key ats) of
             None \<Rightarrow> Inl ValueError
           | Some ks \<Rightarrow> Inr ks)"

text \<open>
  Lines 94 to 96.  \<^verbatim>\<open>pd.to_datetime\<close> raises a ValueError on a cell that does not parse;
  an empty cell becomes NaT and fails in \<^verbatim>\<open>.astype(int)\<close> as above.
\<close>

definition trend_iso :: "raw_time list \<Rightarrow> py_error + (int \<times> int) list" where
  "trend_iso ds =
     (if Garbage \<in> set ds then Inl ValueError
      else case those (map iso_key ds) of
             None \<Rightarrow> Inl ValueError
           | Some ks \<Rightarrow> Inr ks)"

subsection \<open>Week index\<close>

text \<open>Line 108: \<^verbatim>\<open>merged["iso_year"]*100 + merged["iso_week"]\<close>.\<close>

definition week_index_of :: "int \<Rightarrow> int \<Rightarrow> int" where
  "week_index_of y w = y * 100 + w"

subsection \<open>Tables\<close>

text \<open>
  A review row: the \<^verbatim>\<open>at\<close> cell (\<open>review_at\<close>) and the \<^verbatim>\<open>score\<close> cell (\<open>None\<close> when the score is
  missing).  The \<^verbatim>\<open>content\<close> column is never read.
\<close>

record review =
  review_at :: raw_time
  score :: "real option"

text \<open>
  The trend file has a \<^verbatim>\<open>date\<close> column and any number of other columns.  \<open>columns\<close> lists
  the other columns in file order with the kind \<^verbatim>\<open>read_csv\<close> gave them; a row gives its
  \<^verbatim>\<open>date\<close> cell and, for a numeric column, its value (\<open>None\<close> for NaN).
\<close>

datatype dtype = Numeric | Object

record trend_row =
  date :: raw_time
  cells :: "string \<Rightarrow> real option"

record trend_table =
  columns :: "(string \<times> dtype) list"
  rows :: "trend_row list"

record week_key =
  iso_year :: int
  iso_week :: int

text \<open>The week key of a row of any of the weekly tables.\<close>

definition key_of :: "'a week_key_scheme \<Rightarrow> int \<times> int" where
  "key_of a = (iso_year a, iso_week a)"

record weekly_review_row = week_key +
  avg_score :: "real option"
  review_count :: nat

record weekly_trend_row = week_key +
  trend_mean :: "real option"

record joined_row = weekly_review_row +
  trend_mean :: "real option"

record merged_row = joined_row +
  week_index :: int

subsection \<open>Weekly aggregation\<close>

text \<open>
  \<^verbatim>\<open>groupby([...])\<close> yields one group per distinct key, in ascending key order.  The
  \<^verbatim>\<open>"mean"\<close> reducer skips missing values and is NaN on a group without any value; the
  \<^verbatim>\<open>"size"\<close> reducer counts the rows of the group.
\<close>

definition group_keys :: "(int \<times> int) list \<Rightarrow> (int \<times> int) list" where
  "group_keys ks = sort (remdups ks)"

definition group_of :: "(int \<times> int) \<Rightarrow> (int \<times> int) list \<Rightarrow> 'a list \<Rightarrow> 'a list" where
  "group_of k ks xs = map snd (filter (\<lambda>p. fst p = k) (zip ks xs))"

definition present :: "real option list \<Rightarrow> real list" where
  "present vs = map the (filter (\<lambda>v. v \<noteq> None) vs)"

definition mean_skipna :: "real option list \<Rightarrow> real option" where
  "mean_skipna vs =
     (if present vs = [] then None
      else Some (sum_list (present vs) / of_nat (length (present vs))))"

text \<open>Lines 86 to 92.\<close>

definition weekly_reviews :: "review list \<Rightarrow> py_error + weekly_review_row list" where
  "weekly_reviews reviews =
     (case reviews_iso (map review_at reviews) of
        Inl e \<Rightarrow> Inl e
      | Inr ks \<Rightarrow>
          Inr (map (\<lambda>k. \<lparr>iso_year = fst k, iso_week = snd k,
                          avg_score = mean_skipna (map score (group_of k ks reviews)),
                          review_count = length (group_of k ks reviews)\<rparr>)
                   (group_keys ks)))"

subsection \<open>The trend metric column\<close>

text \<open>\<^verbatim>\<open>df[c] = ...\<close>: an existing column is replaced where it stands, a new one is appended.\<close>

fun set_column :: "string \<Rightarrow> dtype \<Rightarrow> (string \<times> dtype) list \<Rightarrow> (string \<times> dtype) list" where
  "set_column c t [] = [(c, t)]"
| "set_column c t (p # ps) = (if fst p = c then (c, t) # ps else p # set_column c t ps)"

text \<open>
  Lines 94 to 96: the frame after the two derived integer columns are added, together
  with the week key of every row.
\<close>

definition with_iso_columns :: "trend_table \<Rightarrow> py_error + ((int \<times> int) list \<times> trend_table)" where
  "with_iso_columns trend =
     (case trend_iso (map date (rows trend)) of
        Inl e \<Rightarrow> Inl e
      | Inr ks \<Rightarrow>
          Inr (ks,
               \<lparr>columns = set_column ''iso_week'' Numeric
                            (set_column ''iso_year'' Numeric (columns trend)),
                rows = map (\<lambda>p. (snd p)\<lparr>cells := (cells (snd p))
                                    (''iso_year'' := Some (of_int (fst (fst p))),
                                     ''iso_week'' := Some (of_int (snd (fst p))))\<rparr>)
                           (zip ks (rows trend))\<rparr>))"

text \<open>The preferred column name of line 99, as UTF-8 bytes.\<close>

definition preferred_col :: string where
  "preferred_col = [CHR 0xEC, CHR 0xA0, CHR 0x84, CHR 0xEC, CHR 0xB2, CHR 0xB4]"

text \<open>Line 98: \<^verbatim>\<open>select_dtypes(include=[np.number]).columns.tolist()\<close>.\<close>

definition numeric_cols :: "trend_table \<Rightarrow> string list" where
  "numeric_cols trend = map fst (filter (\<lambda>p. snd p = Numeric) (columns trend))"

text \<open>
  Line 99.  The \<^verbatim>\<open>date\<close> column is no member of \<open>columns\<close>; its name is not the preferred
  one, and after line 94 it is a datetime column, so it is no numeric column either.
\<close>

definition trend_metric_col :: "trend_table \<Rightarrow> string option" where
  "trend_metric_col trend =
     (if preferred_col \<in> set (map fst (columns trend)) then Some preferred_col
      else case numeric_cols trend of [] \<Rightarrow> None | c # _ \<Rightarrow> Some c)"

text \<open>
  Lines 101 to 105.  Naming a column that the frame does not have is a KeyError; the mean
  of a text column is a TypeError.  A grouping column can be aggregated like any other.
\<close>

definition weekly_trend ::
  "(int \<times> int) list \<Rightarrow> trend_table \<Rightarrow> string option \<Rightarrow> py_error + weekly_trend_row list" where
  "weekly_trend ks trend col =
     (case col of
        None \<Rightarrow> Inl KeyError
      | Some c \<Rightarrow>
          (case map_of (columns trend) c of
             None \<Rightarrow> Inl KeyError
           | Some Object \<Rightarrow> Inl TypeError
           | Some Numeric \<Rightarrow>
               Inr (map (\<lambda>k. \<lparr>iso_year = fst k, iso_week = snd k,
                               weekly_trend_row.trend_mean =
                                 mean_skipna (map (\<lambda>r. cells r c) (group_of k ks (rows trend)))\<rparr>)
                        (group_keys ks))))"

subsection \<open>Join\<close>

text \<open>
  Line 107: \<^verbatim>\<open>merge(..., on=["iso_year","iso_week"], how="inner")\<close> pairs every left row
  with every right row of the same key, in the order of the left rows.
\<close>

definition same_key :: "'a week_key_scheme \<Rightarrow> 'b week_key_scheme \<Rightarrow> bool" where
  "same_key a b = (iso_year a = iso_year b \<and> iso_week a = iso_week b)"

definition merge_inner :: "weekly_review_row list \<Rightarrow> weekly_trend_row list \<Rightarrow> joined_row list" where
  "merge_inner l r =
     concat (map (\<lambda>a. map (\<lambda>b. \<lparr>iso_year = iso_year a, iso_week = iso_week a,
                                   avg_score = avg_score a, review_count = review_count a,
                                   trend_mean = weekly_trend_row.trend_mean b\<rparr>)
                           (filter (same_key a) r))
                 l)"

text \<open>Line 108.\<close>

definition add_week_index :: "joined_row \<Rightarrow> merged_row" where
  "add_week_index j =
     \<lparr>iso_year = iso_year j, iso_week = iso_week j,
      avg_score = avg_score j, review_count = review_count j,
      trend_mean = trend_mean j,
      week_index = week_index_of (iso_year j) (iso_week j)\<rparr>"

text \<open>Lines 94 to 105: the chosen metric column and the weekly trend aggregate.\<close>

definition trend_weekly :: "trend_table \<Rightarrow> py_error + (string option \<times> weekly_trend_row list)" where
  "trend_weekly trend =
     (case with_iso_columns trend of
        Inl e \<Rightarrow> Inl e
      | Inr (ks, trend') \<Rightarrow>
          (case weekly_trend ks trend' (trend_metric_col trend') of
             Inl e \<Rightarrow> Inl e
           | Inr wt \<Rightarrow> Inr (trend_metric_col trend', wt)))"

text \<open>Lines 83 to 108: from the two files to the merged table and the chosen column.\<close>

definition merged_table ::
  "review list \<Rightarrow> trend_table \<Rightarrow> py_error + (string option \<times> merged_row list)" where
  "merged_table reviews trend =
     (case weekly_reviews reviews of
        Inl e \<Rightarrow> Inl e
      | Inr wr \<Rightarrow>
          (case trend_weekly trend of
             Inl e \<Rightarrow> Inl e
           | Inr (col, wt) \<Rightarrow> Inr (col, map add_week_index (merge_inner wr wt))))"

subsection \<open>Correlation statistics\<close>

text \<open>
  A float result of the statistics library: NaN or a finite number.  The library's
  floating-point computation on well-defined input is a parameter of the model
  (\<open>pearson_fin\<close>, \<open>spearman_fin\<close>: coefficient and two-sided p-value); what the model
  fixes is when the library raises and when it answers NaN.
\<close>

datatype fl = NaN | Fin real

record stats_lib =
  pearson_fin :: "real list \<Rightarrow> real list \<Rightarrow> fl \<times> fl"
  spearman_fin :: "real list \<Rightarrow> real list \<Rightarrow> fl \<times> fl"

text \<open>\<^verbatim>\<open>(x == x[0]).all()\<close>: every entry equals the first one (NaN equals nothing).\<close>

definition constant_input :: "real option list \<Rightarrow> bool" where
  "constant_input x =
     (case x of [] \<Rightarrow> True | v # _ \<Rightarrow> v \<noteq> None \<and> list_all (\<lambda>u. u = v) x)"

text \<open>
  \<^verbatim>\<open>pearsonr\<close> raises a ValueError on fewer than two observations; on a constant input it
  warns and returns NaN for both scalars; a NaN among the observations makes both
  scalars NaN.
\<close>

definition pearsonr :: "stats_lib \<Rightarrow> real option list \<Rightarrow> real option list \<Rightarrow> py_error + fl \<times> fl" where
  "pearsonr lib x y =
     (if length x \<noteq> length y then Inl ValueError
      else if length x < 2 then Inl ValueError
      else if constant_input x \<or> constant_input y then Inr (NaN, NaN)
      else if None \<in> set x \<or> None \<in> set y then Inr (NaN, NaN)
      else Inr (pearson_fin lib (map the x) (map the y)))"

text \<open>\<^verbatim>\<open>spearmanr\<close> returns NaN on fewer than two observations and on a constant input.\<close>

definition spearmanr :: "stats_lib \<Rightarrow> real option list \<Rightarrow> real option list \<Rightarrow> py_error + fl \<times> fl" where
  "spearmanr lib x y =
     (if length x \<noteq> length y then Inl ValueError
      else if length x < 2 then Inr (NaN, NaN)
      else if constant_input x \<or> constant_input y then Inr (NaN, NaN)
      else if None \<in> set x \<or> None \<in> set y then Inr (NaN, NaN)
      else Inr (spearman_fin lib (map the x) (map the y)))"

text \<open>Lines 111 and 112: no guard and no handler around the two calls.\<close>

definition correlations :: "stats_lib \<Rightarrow> merged_row list \<Rightarrow> py_error + (fl \<times> fl) \<times> (fl \<times> fl)" where
  "correlations lib merged =
     (case pearsonr lib (map trend_mean merged) (map avg_score merged) of
        Inl e \<Rightarrow> Inl e
      | Inr p \<Rightarrow>
          (case spearmanr lib (map trend_mean merged) (map avg_score merged) of
             Inl e \<Rightarrow> Inl e
           | Inr s \<Rightarrow> Inr (p, s)))"

subsection \<open>Font resolver of the PDF renderer\<close>

text \<open>
  The file system, as far as the resolver looks at it: a path names nothing, or a file
  that does not load as a TrueType font, or a TrueType font file with the face name
  stored in it.  \<^verbatim>\<open>os.path.exists\<close> holds for the last two.
\<close>

datatype file_entry = Missing | NotAFont | FontFile string

type_synonym file_system = "string \<Rightarrow> file_entry"

definition path_exists :: "file_system \<Rightarrow> string \<Rightarrow> bool" where
  "path_exists fs p = (fs p \<noteq> Missing)"

text \<open>
  A font object built from a file carries the name it was built under, the file and the
  face name read from the file.  The renderer keeps two process-wide tables: the fonts by
  name (\<^verbatim>\<open>_fonts\<close>, which also holds fonts that are not built from a file) and the
  file-built fonts by face name (\<^verbatim>\<open>_dynFaceNames\<close>).
\<close>

datatype ttfont = TTFontObj string string string

datatype font = StandardFont string | DynamicFont ttfont

record font_registry =
  pdf_fonts :: "string \<rightharpoonup> font"
  dyn_face_names :: "string \<rightharpoonup> ttfont"

text \<open>\<^verbatim>\<open>TTFont(name, path)\<close> reads the file and raises TTFError when it is no loadable font.\<close>

definition TTFont :: "file_system \<Rightarrow> string \<Rightarrow> string \<Rightarrow> py_error + ttfont" where
  "TTFont fs name path =
     (case fs path of
        FontFile face \<Rightarrow> Inr (TTFontObj name path face)
      | NotAFont \<Rightarrow> Inl TTFError
      | Missing \<Rightarrow> Inl TTFError)"

text \<open>
  \<^verbatim>\<open>pdfmetrics.registerFont\<close> on a file-built font: a name that is registered already
  keeps its font; a new name gets the font that is registered for the same face name, if
  there is one, and the new font otherwise, which then also becomes the font of its face
  name.
\<close>

fun registerFont :: "ttfont \<Rightarrow> font_registry \<Rightarrow> font_registry" where
  "registerFont (TTFontObj name path face) registry =
     (if pdf_fonts registry name \<noteq> None then registry
      else case dyn_face_names registry face of
             Some ofont \<Rightarrow> registry\<lparr>pdf_fonts := (pdf_fonts registry)(name \<mapsto> DynamicFont ofont)\<rparr>
           | None \<Rightarrow>
               registry\<lparr>pdf_fonts := (pdf_fonts registry)
                                      (name \<mapsto> DynamicFont (TTFontObj name path face)),
                         dyn_face_names := (dyn_face_names registry)
                                      (face \<mapsto> TTFontObj name path face)\<rparr>)"

definition ttf_candidates :: "string list" where
  "ttf_candidates =
     [''/usr/share/fonts/truetype/nanum/NanumGothic.ttf'',
      ''/usr/share/fonts/truetype/nanum/NanumGothicBold.ttf'',
      ''/usr/share/fonts/truetype/noto/NotoSansCJK-Regular.ttc'']"

text \<open>
  The loop of lines 67 to 71, with its early return.  Line 69 has no handler: an error of
  the font constructor leaves the function.
\<close>

fun register_from ::
  "file_system \<Rightarrow> string list \<Rightarrow> font_registry \<Rightarrow> py_error + string \<times> font_registry" where
  "register_from fs [] registry = Inr (''Helvetica'', registry)"
| "register_from fs (p # ps) registry =
     (if path_exists fs p
      then (case TTFont fs ''KFont'' p of
              Inl e \<Rightarrow> Inl e
            | Inr f \<Rightarrow> Inr (''KFont'', registerFont f registry))
      else register_from fs ps registry)"

definition register_korean_font_reportlab ::
  "file_system \<Rightarrow> font_registry \<Rightarrow> py_error + string \<times> font_registry" where
  "register_korean_font_reportlab fs registry = register_from fs ttf_candidates registry"

subsection \<open>The report\<close>

text \<open>
  The cells of the document that carry data: the "data used" row of the summary table
  (line 170, an f-string around the metric column name), the values formatted into the
  two rows of the statistics table (lines 206 and 207), and the font the styles use.
\<close>

record report =
  data_row :: string
  pearson_row :: "fl \<times> fl"
  spearman_row :: "fl \<times> fl"
  font_name :: string

text \<open>How an f-string renders an optional string.\<close>

definition py_str :: "string option \<Rightarrow> string" where
  "py_str v = (case v of None \<Rightarrow> ''None'' | Some s \<Rightarrow> s)"

definition data_row_prefix :: string where
  "data_row_prefix =
     [CHR 0xEB, CHR 0xA6, CHR 0xAC, CHR 0xEB, CHR 0xB7, CHR 0xB0]
     @ '' 130K+ (score, at, content) / ''
     @ [CHR 0xEC, CHR 0xA3, CHR 0xBC, CHR 0xEB, CHR 0xB3, CHR 0x84] @ '' ''
     @ [CHR 0xED, CHR 0x8A, CHR 0xB8, CHR 0xEB, CHR 0xA0, CHR 0x8C, CHR 0xEB, CHR 0x93, CHR 0x9C]
     @ '' ''
     @ [CHR 0xEC, CHR 0xA7, CHR 0x80, CHR 0xEC, CHR 0x88, CHR 0x98] @ ''(''
     @ [CHR 0xE2, CHR 0x80, CHR 0x98]"

definition data_row_suffix :: string where
  "data_row_suffix =
     [CHR 0xE2, CHR 0x80, CHR 0x99] @ '' ''
     @ [CHR 0xEA, CHR 0xB8, CHR 0xB0, CHR 0xEC, CHR 0xA4, CHR 0x80] @ '')''"

definition data_row_text :: "string option \<Rightarrow> string" where
  "data_row_text col = data_row_prefix @ py_str col @ data_row_suffix"

text \<open>
  \<^verbatim>\<open>main\<close>, lines 83 to 272, without the charts: the statistics come before any output
  is written, the font is registered after them (line 146), and nothing is caught.
\<close>

definition main ::
  "stats_lib \<Rightarrow> file_system \<Rightarrow> font_registry \<Rightarrow> review list \<Rightarrow> trend_table
     \<Rightarrow> py_error + report \<times> font_registry" where
  "main lib fs registry reviews trend =
     (case merged_table reviews trend of
        Inl e \<Rightarrow> Inl e
      | Inr (col, merged) \<Rightarrow>
          (case correlations lib merged of
             Inl e \<Rightarrow> Inl e
           | Inr (p, s) \<Rightarrow>
               (case register_korean_font_reportlab fs registry of
                  Inl e \<Rightarrow> Inl e
                | Inr (name, registry') \<Rightarrow>
                    Inr (\<lparr>data_row = data_row_text col, pearson_row = p, spearman_row = s,
                          font_name = name\<rparr>,
                         registry'))))"

section \<open>Properties\<close>

subsection \<open>Evaluation\<close>

text \<open>The equations that evaluate the model on concrete tables, and the dates used below.\<close>

lemmas calendar_defs =
  isocalendar_def isoweek1monday_def ymd2ord_def days_before_year_def
  days_before_month_def is_leap_def Let_def

lemmas aggregate_defs =
  group_keys_def group_of_def mean_skipna_def present_def

lemmas trend_defs =
  trend_weekly_def with_iso_columns_def trend_iso_def trend_metric_col_def
  preferred_col_def numeric_cols_def weekly_trend_def

lemmas join_defs =
  merge_inner_def same_key_def add_week_index_def week_index_of_def

lemmas stats_defs =
  correlations_def pearsonr_def spearmanr_def constant_input_def

lemma iso_2021_01_01: "isocalendar 2021 1 1 = (2020, 53)"
  by (simp add: calendar_defs)

lemma iso_2023_12_27: "isocalendar 2023 12 27 = (2023, 52)"
  by (simp add: calendar_defs)

lemma iso_2024_01_03: "isocalendar 2024 1 3 = (2024, 1)"
  by (simp add: calendar_defs)

lemma iso_2024_01_04: "isocalendar 2024 1 4 = (2024, 1)"
  by (simp add: calendar_defs)

lemma iso_2024_01_10: "isocalendar 2024 1 10 = (2024, 2)"
  by (simp add: calendar_defs)

lemma iso_2024_01_17: "isocalendar 2024 1 17 = (2024, 3)"
  by (simp add: calendar_defs)

lemma iso_2024_02_07: "isocalendar 2024 2 7 = (2024, 6)"
  by (simp add: calendar_defs)

lemma iso_2024_12_30: "isocalendar 2024 12 30 = (2025, 1)"
  by (simp add: calendar_defs)

subsection \<open>The calendar is the ISO week calendar\<close>

text \<open>
  For every date of the calendar, the week number lies in 1..53, and the date lies in
  that week of its ISO year, counted in steps of seven days from the Monday of week 1;
  the Monday of week 1 is a Monday at most three days away from January 1, so that week 1
  holds January 4.
\<close>

lemma div_step_generic:
  fixes y n :: int
  assumes "0 < n"
  shows "y div n = (y - 1) div n + (if y mod n = 0 then 1 else 0)"
proof (cases "y mod n = 0")
  case True
  have "y - 1 = n * (y div n - 1) + (n - 1)"
    using True by (simp add: algebra_simps) (metis mult_div_mod_eq add.right_neutral mult.commute)
  then have "(y - 1) div n = y div n - 1"
    by (rule int_div_pos_eq) (use assms in simp_all)
  with True show ?thesis by simp
next
  case False
  have "y - 1 = n * (y div n) + (y mod n - 1)" by simp
  moreover have "0 \<le> y mod n" "y mod n < n"
    using assms by simp_all
  then have "0 \<le> y mod n - 1" "y mod n - 1 < n"
    using False by linarith+
  ultimately have "(y - 1) div n = y div n"
    by (rule int_div_pos_eq)
  with False show ?thesis by simp
qed

lemma days_before_year_Suc:
  "days_before_year (y + 1) = days_before_year y + 365 + (if is_leap y then 1 else 0)"
proof -
  define A B C where "A = (y - 1) div 4" and "B = (y - 1) div 100" and "C = (y - 1) div 400"
  define p q r where "p \<longleftrightarrow> y mod 4 = 0" and "q \<longleftrightarrow> y mod 100 = 0" and "r \<longleftrightarrow> y mod 400 = 0"
  have a: "y div 4 = A + (if p then 1 else 0)"
    unfolding A_def p_def by (rule div_step_generic) simp
  have b: "y div 100 = B + (if q then 1 else 0)"
    unfolding B_def q_def by (rule div_step_generic) simp
  have c: "y div 400 = C + (if r then 1 else 0)"
    unfolding C_def r_def by (rule div_step_generic) simp
  have d: "q" if "r"
    using that mod_mod_cancel[of 100 400 y] unfolding q_def r_def by simp
  have e: "p" if "q"
    using that mod_mod_cancel[of 4 100 y] unfolding p_def q_def by simp
  have l: "is_leap y \<longleftrightarrow> p \<and> (\<not> q \<or> r)"
    by (simp only: is_leap_def p_def q_def r_def)
  have next_year: "days_before_year (y + 1) = y * 365 + y div 4 - y div 100 + y div 400"
    by (simp add: days_before_year_def)
  have this_year: "days_before_year y = (y - 1) * 365 + A - B + C"
    by (simp only: days_before_year_def A_def B_def C_def)
  show ?thesis
    unfolding next_year this_year a b c l using d e
    by (cases p; cases q; cases r; simp)
qed


lemma day_of_year_range:
  assumes "valid_date y m d"
  shows "1 \<le> days_before_month y m + d"
    and "days_before_month y m + d \<le> 365 + (if is_leap y then 1 else 0)"
proof -
  from assms have "m = 1 \<or> m = 2 \<or> m = 3 \<or> m = 4 \<or> m = 5 \<or> m = 6 \<or> m = 7 \<or> m = 8
      \<or> m = 9 \<or> m = 10 \<or> m = 11 \<or> m = 12"
    unfolding valid_date_def by arith
  then show "1 \<le> days_before_month y m + d"
    and "days_before_month y m + d \<le> 365 + (if is_leap y then 1 else 0)"
    using assms unfolding valid_date_def days_in_month_def days_before_month_def
    by (elim disjE; simp split: if_splits)+
qed

lemma isoweek1monday_eq:
  "isoweek1monday y =
     days_before_year y + 1 - (days_before_year y + 7) mod 7
       + (if 3 < (days_before_year y + 7) mod 7 then 7 else 0)"
  by (simp add: isoweek1monday_def ymd2ord_def days_before_month_def Let_def)

lemma isoweek1monday_bounds:
  "days_before_year y - 2 \<le> isoweek1monday y"
  "isoweek1monday y \<le> days_before_year y + 4"
  "(isoweek1monday y + 6) mod 7 = 0"
proof -
  define F where "F = days_before_year y"
  have m: "isoweek1monday y = F + 1 - (F + 7) mod 7 + (if 3 < (F + 7) mod 7 then 7 else 0)"
    unfolding F_def by (rule isoweek1monday_eq)
  show "days_before_year y - 2 \<le> isoweek1monday y"
    unfolding m F_def [symmetric] by presburger
  show "isoweek1monday y \<le> days_before_year y + 4"
    unfolding m F_def [symmetric] by presburger
  show "(isoweek1monday y + 6) mod 7 = 0"
    unfolding m by presburger
qed


lemma isocalendar_cases:
  "isocalendar y m d =
     (if ymd2ord y m d < isoweek1monday y
      then (y - 1, (ymd2ord y m d - isoweek1monday (y - 1)) div 7 + 1)
      else if isoweek1monday y + 364 \<le> ymd2ord y m d \<and> isoweek1monday (y + 1) \<le> ymd2ord y m d
      then (y + 1, 1)
      else (y, (ymd2ord y m d - isoweek1monday y) div 7 + 1))"
proof -
  define T M where "T = ymd2ord y m d" and "M = isoweek1monday y"
  have "(T - M) div 7 < 0 \<longleftrightarrow> T < M" by presburger
  moreover have "52 \<le> (T - M) div 7 \<longleftrightarrow> M + 364 \<le> T" by presburger
  ultimately show ?thesis
    unfolding isocalendar_def Let_def T_def [symmetric] M_def [symmetric] by simp
qed

lemma week_of_offset:
  fixes T M :: int
  assumes "M \<le> T" and "T \<le> M + 370"
  shows "1 \<le> (T - M) div 7 + 1 \<and> (T - M) div 7 + 1 \<le> 53
       \<and> M + 7 * ((T - M) div 7 + 1 - 1) \<le> T \<and> T < M + 7 * ((T - M) div 7 + 1)"
proof -
  define D where "D = T - M"
  have "0 \<le> D" "D \<le> 370" using assms by (simp_all add: D_def)
  then have "0 \<le> D div 7 \<and> D div 7 \<le> 52 \<and> 7 * (D div 7) \<le> D \<and> D < 7 * (D div 7) + 7"
    by presburger
  then show ?thesis unfolding D_def [symmetric] by (simp add: D_def)
qed

lemma monday_gap:
  fixes M N :: int
  assumes "(M + 6) mod 7 = 0" and "(N + 6) mod 7 = 0" and "N - M \<le> 372"
  shows "N - M \<le> 371"
  using assms by presburger

lemma isocalendar_week:
  assumes "valid_date y m d"
  shows "1 \<le> snd (isocalendar y m d) \<and> snd (isocalendar y m d) \<le> 53
       \<and> isoweek1monday (fst (isocalendar y m d)) + 7 * (snd (isocalendar y m d) - 1) \<le> ymd2ord y m d
       \<and> ymd2ord y m d < isoweek1monday (fst (isocalendar y m d)) + 7 * snd (isocalendar y m d)"
proof -
  define T where "T = ymd2ord y m d"
  define F where "F = days_before_year y"
  define L :: int where "L = (if is_leap y then 1 else 0)"
  define K :: int where "K = (if is_leap (y - 1) then 1 else 0)"
  define M where "M = isoweek1monday y"
  define N where "N = isoweek1monday (y + 1)"
  define P where "P = isoweek1monday (y - 1)"
  have LK: "0 \<le> L" "L \<le> 1" "0 \<le> K" "K \<le> 1"
    by (simp_all add: L_def K_def)
  have T: "F + 1 \<le> T" "T \<le> F + 365 + L"
    using day_of_year_range[OF assms] by (simp_all add: T_def F_def L_def ymd2ord_def)
  have nxt: "days_before_year (y + 1) = F + 365 + L"
    unfolding F_def L_def by (rule days_before_year_Suc)
  have prv: "days_before_year (y - 1) = F - 365 - K"
    using days_before_year_Suc[of "y - 1"] by (simp add: F_def K_def)
  have M: "F - 2 \<le> M" "M \<le> F + 4" "(M + 6) mod 7 = 0"
    using isoweek1monday_bounds[of y] by (simp_all add: M_def F_def)
  have N: "F + 365 + L - 2 \<le> N" "N \<le> F + 365 + L + 4" "(N + 6) mod 7 = 0"
    using isoweek1monday_bounds[of "y + 1"] by (simp_all add: N_def nxt)
  have P: "F - 365 - K - 2 \<le> P" "P \<le> F - 365 - K + 4" "(P + 6) mod 7 = 0"
    using isoweek1monday_bounds[of "y - 1"] by (simp_all add: P_def prv)
  consider (before) "T < M" | (after) "\<not> T < M" "M + 364 \<le> T \<and> N \<le> T"
    | (within) "\<not> T < M" "\<not> (M + 364 \<le> T \<and> N \<le> T)"
    by blast
  then show ?thesis
  proof cases
    case before
    then have r: "isocalendar y m d = (y - 1, (T - P) div 7 + 1)"
      by (simp add: isocalendar_cases T_def M_def P_def)
    have "M - P \<le> 372" using M(2) P(1) LK by linarith
    then have "M - P \<le> 371" using P(3) M(3) by (rule monday_gap[rotated 2])
    then have "P \<le> T" "T \<le> P + 370" using before T(1) P(2) LK by linarith+
    then show ?thesis
      unfolding r fst_conv snd_conv P_def [symmetric] T_def [symmetric]
      by (rule week_of_offset)
  next
    case after
    then have r: "isocalendar y m d = (y + 1, 1)"
      by (simp add: isocalendar_cases T_def M_def N_def)
    have "N \<le> T" "T < N + 7" using after T(2) N(1) by linarith+
    then show ?thesis
      unfolding r fst_conv snd_conv N_def [symmetric] T_def [symmetric]
      by simp
  next
    case within
    then have r: "isocalendar y m d = (y, (T - M) div 7 + 1)"
      by (simp add: isocalendar_cases T_def M_def N_def)
    have "N - M \<le> 372" using M(1) N(2) LK by linarith
    then have "N - M \<le> 371" using M(3) N(3) by (rule monday_gap[rotated 2])
    then have "M \<le> T" "T \<le> M + 370" using within by linarith+
    then show ?thesis
      unfolding r fst_conv snd_conv M_def [symmetric] T_def [symmetric]
      by (rule week_of_offset)
  qed
qed

lemma iso_key_week_range:
  assumes "valid_date y m d" and "iso_key (Stamp y m d) = Some k"
  shows "1 \<le> snd k \<and> snd k \<le> 53"
  using isocalendar_week[OF assms(1)] assms(2) by auto

lemma isoweek1monday_holds_jan4:
  "isoweek1monday y \<le> ymd2ord y 1 4 \<and> ymd2ord y 1 4 < isoweek1monday y + 7"
  using isoweek1monday_bounds(1,2)[of y]
  by (simp add: ymd2ord_def days_before_month_def)

subsection \<open>The scenario of one shared week\<close>

text \<open>
  Claim C5.  Two reviews of 2024-01-03 (score 5) and 2024-01-04 (score 3) and two trend
  rows of the same days (metric 10 and 20): both days have the week key (2024, 1); the
  weekly review aggregate is one row of mean 4 and count 2; the weekly trend aggregate is
  one row of mean 15; the merged table is the one row with week index 202401.
\<close>

theorem scenario_one_shared_week:
  "iso_key (Stamp 2024 1 3) = Some (2024, 1)
   \<and> iso_key (Stamp 2024 1 4) = Some (2024, 1)
   \<and> weekly_reviews
        [\<lparr>review_at = Stamp 2024 1 3, score = Some 5\<rparr>,
         \<lparr>review_at = Stamp 2024 1 4, score = Some 3\<rparr>]
       = Inr [\<lparr>iso_year = 2024, iso_week = 1, avg_score = Some 4, review_count = 2\<rparr>]
   \<and> trend_weekly
        \<lparr>columns = [(''metric'', Numeric)],
         rows = [\<lparr>date = Stamp 2024 1 3, cells = (\<lambda>c. None)(''metric'' := Some 10)\<rparr>,
                 \<lparr>date = Stamp 2024 1 4, cells = (\<lambda>c. None)(''metric'' := Some 20)\<rparr>]\<rparr>
       = Inr (Some ''metric'',
              [\<lparr>iso_year = 2024, iso_week = 1, weekly_trend_row.trend_mean = Some 15\<rparr>])
   \<and> merged_table
        [\<lparr>review_at = Stamp 2024 1 3, score = Some 5\<rparr>,
         \<lparr>review_at = Stamp 2024 1 4, score = Some 3\<rparr>]
        \<lparr>columns = [(''metric'', Numeric)],
         rows = [\<lparr>date = Stamp 2024 1 3, cells = (\<lambda>c. None)(''metric'' := Some 10)\<rparr>,
                 \<lparr>date = Stamp 2024 1 4, cells = (\<lambda>c. None)(''metric'' := Some 20)\<rparr>]\<rparr>
       = Inr (Some ''metric'',
              [\<lparr>iso_year = 2024, iso_week = 1, avg_score = Some 4, review_count = 2,
                trend_mean = Some 15, week_index = 202401\<rparr>])"
proof -
  have wr: "weekly_reviews
        [\<lparr>review_at = Stamp 2024 1 3, score = Some 5\<rparr>,
         \<lparr>review_at = Stamp 2024 1 4, score = Some 3\<rparr>]
       = Inr [\<lparr>iso_year = 2024, iso_week = 1, avg_score = Some 4, review_count = 2\<rparr>]"
    by (simp add: weekly_reviews_def reviews_iso_def iso_2024_01_03 iso_2024_01_04
        aggregate_defs)
  have wt: "trend_weekly
        \<lparr>columns = [(''metric'', Numeric)],
         rows = [\<lparr>date = Stamp 2024 1 3, cells = (\<lambda>c. None)(''metric'' := Some 10)\<rparr>,
                 \<lparr>date = Stamp 2024 1 4, cells = (\<lambda>c. None)(''metric'' := Some 20)\<rparr>]\<rparr>
       = Inr (Some ''metric'',
              [\<lparr>iso_year = 2024, iso_week = 1, weekly_trend_row.trend_mean = Some 15\<rparr>])"
    by (simp add: trend_defs iso_2024_01_03 iso_2024_01_04 aggregate_defs)
  show ?thesis
    by (simp add: iso_2024_01_03 iso_2024_01_04 wr wt merged_table_def join_defs)
qed

subsection \<open>Week index\<close>

text \<open>
  Claim C6.  Among merged rows whose week numbers lie in 1..53, a chronologically earlier
  row (smaller ISO year, or the same year and a smaller week) gets a strictly smaller
  week index \<open>year * 100 + week\<close>, within one year and across a year boundary.
\<close>

theorem week_index_strictly_monotone:
  assumes "1 \<le> iso_week a" and "iso_week a \<le> 53"
      and "1 \<le> iso_week b" and "iso_week b \<le> 53"
      and "iso_year a < iso_year b \<or> (iso_year a = iso_year b \<and> iso_week a < iso_week b)"
  shows "week_index (add_week_index a) < week_index (add_week_index b)"
  using assms unfolding add_week_index_def week_index_of_def by auto

theorem week_index_strictly_monotone_witness:
  "week_index (add_week_index \<lparr>iso_year = 2023, iso_week = 52, avg_score = Some 4,
                               review_count = 7, trend_mean = Some 15\<rparr>)
     < week_index (add_week_index \<lparr>iso_year = 2024, iso_week = 1, avg_score = Some 3,
                                   review_count = 2, trend_mean = Some 20\<rparr>)
   \<and> week_index (add_week_index \<lparr>iso_year = 2023, iso_week = 52, avg_score = Some 4,
                               review_count = 7, trend_mean = Some 15\<rparr>) = 202352
   \<and> week_index (add_week_index \<lparr>iso_year = 2024, iso_week = 1, avg_score = Some 3,
                                   review_count = 2, trend_mean = Some 20\<rparr>) = 202401"
  using week_index_strictly_monotone
    [of "\<lparr>iso_year = 2023, iso_week = 52, avg_score = Some 4,
          review_count = 7, trend_mean = Some 15\<rparr>"
        "\<lparr>iso_year = 2024, iso_week = 1, avg_score = Some 3,
          review_count = 2, trend_mean = Some 20\<rparr>"]
  by (simp add: add_week_index_def week_index_of_def)

subsection \<open>Font resolver\<close>

lemma register_from_find:
  "register_from fs ps registry =
     (case find (path_exists fs) ps of
        None \<Rightarrow> Inr (''Helvetica'', registry)
      | Some p \<Rightarrow>
          (case TTFont fs ''KFont'' p of
             Inl e \<Rightarrow> Inl e
           | Inr f \<Rightarrow> Inr (''KFont'', registerFont f registry)))"
  by (induction ps) simp_all

lemmas font_defs =
  register_korean_font_reportlab_def ttf_candidates_def path_exists_def TTFont_def

text \<open>
  Claim C8, as the code has it.  The resolver goes through the three fixed font paths in
  order and stops at the first one that exists.  When none exists, the registry is left
  as it was and Helvetica is returned.  When the first existing file is no loadable font,
  the call ends with the constructor's TTFError: no later path is tried and nothing is
  returned.  When it is a loadable font, KFont is returned, and the registry is left as
  it was if the name KFont is registered already; otherwise KFont is registered, for the
  font already registered with the same face name if there is one, and for the file
  otherwise.
\<close>

theorem register_korean_font_reportlab_outcomes:
  "ttf_candidates =
     [''/usr/share/fonts/truetype/nanum/NanumGothic.ttf'',
      ''/usr/share/fonts/truetype/nanum/NanumGothicBold.ttf'',
      ''/usr/share/fonts/truetype/noto/NotoSansCJK-Regular.ttc'']
   \<and> (find (path_exists fs) ttf_candidates = None \<longrightarrow>
        register_korean_font_reportlab fs registry = Inr (''Helvetica'', registry))
   \<and> (find (path_exists fs) ttf_candidates = Some p \<and> fs p = NotAFont \<longrightarrow>
        register_korean_font_reportlab fs registry = Inl TTFError)
   \<and> (find (path_exists fs) ttf_candidates = Some p \<and> fs p = FontFile face
        \<and> pdf_fonts registry ''KFont'' = Some f \<longrightarrow>
        register_korean_font_reportlab fs registry = Inr (''KFont'', registry))
   \<and> (find (path_exists fs) ttf_candidates = Some p \<and> fs p = FontFile face
        \<and> pdf_fonts registry ''KFont'' = None \<and> dyn_face_names registry face = Some ofont \<longrightarrow>
        register_korean_font_reportlab fs registry =
          Inr (''KFont'',
               registry\<lparr>pdf_fonts := (pdf_fonts registry)(''KFont'' \<mapsto> DynamicFont ofont)\<rparr>))
   \<and> (find (path_exists fs) ttf_candidates = Some p \<and> fs p = FontFile face
        \<and> pdf_fonts registry ''KFont'' = None \<and> dyn_face_names registry face = None \<longrightarrow>
        register_korean_font_reportlab fs registry =
          Inr (''KFont'',
               registry\<lparr>pdf_fonts := (pdf_fonts registry)
                                  (''KFont'' \<mapsto> DynamicFont (TTFontObj ''KFont'' p face)),
                         dyn_face_names := (dyn_face_names registry)
                                  (face \<mapsto> TTFontObj ''KFont'' p face)\<rparr>))"
  by (simp add: register_korean_font_reportlab_def register_from_find TTFont_def)
     (simp add: ttf_candidates_def)

text \<open>
  The claim that the first existing file is always registered under KFont and KFont
  returned fails where the first existing file is no loadable font (the call raises), and
  where KFont is registered already (the registry keeps the earlier font).
\<close>

theorem register_korean_font_reportlab_counterexample:
  "register_korean_font_reportlab
     ((\<lambda>p. Missing)(''/usr/share/fonts/truetype/nanum/NanumGothic.ttf'' := NotAFont))
     \<lparr>pdf_fonts = Map.empty, dyn_face_names = Map.empty\<rparr>
    = Inl TTFError
   \<and> register_korean_font_reportlab
        ((\<lambda>p. Missing)(''/usr/share/fonts/truetype/nanum/NanumGothic.ttf'' := FontFile ''NanumGothic''))
        \<lparr>pdf_fonts = [''KFont'' \<mapsto> DynamicFont (TTFontObj ''KFont'' ''/opt/fonts/Other.ttf'' ''Other'')],
          dyn_face_names = [''Other'' \<mapsto> TTFontObj ''KFont'' ''/opt/fonts/Other.ttf'' ''Other'']\<rparr>
    = Inr (''KFont'',
           \<lparr>pdf_fonts = [''KFont'' \<mapsto> DynamicFont (TTFontObj ''KFont'' ''/opt/fonts/Other.ttf'' ''Other'')],
          dyn_face_names = [''Other'' \<mapsto> TTFontObj ''KFont'' ''/opt/fonts/Other.ttf'' ''Other'']\<rparr>)"
  by (simp add: font_defs)

theorem register_korean_font_reportlab_outcomes_witness:
  "register_korean_font_reportlab (\<lambda>p. Missing) \<lparr>pdf_fonts = Map.empty, dyn_face_names = Map.empty\<rparr>
     = Inr (''Helvetica'', \<lparr>pdf_fonts = Map.empty, dyn_face_names = Map.empty\<rparr>)
   \<and> register_korean_font_reportlab
        ((\<lambda>p. Missing)(''/usr/share/fonts/truetype/nanum/NanumGothicBold.ttf'' := NotAFont,
                         ''/usr/share/fonts/truetype/noto/NotoSansCJK-Regular.ttc'' := FontFile ''NotoSansCJK''))
        \<lparr>pdf_fonts = Map.empty, dyn_face_names = Map.empty\<rparr>
     = Inl TTFError
   \<and> register_korean_font_reportlab
        ((\<lambda>p. Missing)(''/usr/share/fonts/truetype/nanum/NanumGothic.ttf'' := FontFile ''NanumGothic''))
        \<lparr>pdf_fonts = [''KFont'' \<mapsto> DynamicFont (TTFontObj ''KFont'' ''/opt/fonts/Other.ttf'' ''Other'')],
          dyn_face_names = [''Other'' \<mapsto> TTFontObj ''KFont'' ''/opt/fonts/Other.ttf'' ''Other'']\<rparr>
     = Inr (''KFont'',
            \<lparr>pdf_fonts = [''KFont'' \<mapsto> DynamicFont (TTFontObj ''KFont'' ''/opt/fonts/Other.ttf'' ''Other'')],
          dyn_face_names = [''Other'' \<mapsto> TTFontObj ''KFont'' ''/opt/fonts/Other.ttf'' ''Other'']\<rparr>)
   \<and> register_korean_font_reportlab
        ((\<lambda>p. Missing)(''/usr/share/fonts/truetype/nanum/NanumGothic.ttf'' := FontFile ''NanumGothic''))
        \<lparr>pdf_fonts = [''Body'' \<mapsto> DynamicFont (TTFontObj ''Body'' ''/opt/fonts/Nanum.ttf'' ''NanumGothic'')],
          dyn_face_names = [''NanumGothic'' \<mapsto> TTFontObj ''Body'' ''/opt/fonts/Nanum.ttf'' ''NanumGothic'']\<rparr>
     = Inr (''KFont'',
            \<lparr>pdf_fonts = [''Body'' \<mapsto> DynamicFont (TTFontObj ''Body'' ''/opt/fonts/Nanum.ttf'' ''NanumGothic''),
                          ''KFont'' \<mapsto> DynamicFont (TTFontObj ''Body'' ''/opt/fonts/Nanum.ttf'' ''NanumGothic'')],
             dyn_face_names = [''NanumGothic'' \<mapsto> TTFontObj ''Body'' ''/opt/fonts/Nanum.ttf'' ''NanumGothic'']\<rparr>)
   \<and> register_korean_font_reportlab
        ((\<lambda>p. Missing)(''/usr/share/fonts/truetype/nanum/NanumGothicBold.ttf'' := FontFile ''NanumGothicBold''))
        \<lparr>pdf_fonts = Map.empty, dyn_face_names = Map.empty\<rparr>
     = Inr (''KFont'',
            \<lparr>pdf_fonts = [''KFont'' \<mapsto> DynamicFont (TTFontObj ''KFont''
                            ''/usr/share/fonts/truetype/nanum/NanumGothicBold.ttf'' ''NanumGothicBold'')],
             dyn_face_names = [''NanumGothicBold'' \<mapsto> TTFontObj ''KFont''
                            ''/usr/share/fonts/truetype/nanum/NanumGothicBold.ttf'' ''NanumGothicBold'']\<rparr>)"
proof -
  note t = register_korean_font_reportlab_outcomes
  have none: "find (path_exists (\<lambda>p. Missing)) ttf_candidates = None"
    by (simp add: ttf_candidates_def path_exists_def)
  have bad: "find (path_exists ((\<lambda>p. Missing)(''/usr/share/fonts/truetype/nanum/NanumGothicBold.ttf'' := NotAFont,
                         ''/usr/share/fonts/truetype/noto/NotoSansCJK-Regular.ttc'' := FontFile ''NotoSansCJK''))) ttf_candidates
      = Some ''/usr/share/fonts/truetype/nanum/NanumGothicBold.ttf''"
    by (simp add: ttf_candidates_def path_exists_def)
  have first: "find (path_exists
                      ((\<lambda>p. Missing)(''/usr/share/fonts/truetype/nanum/NanumGothic.ttf'' := FontFile ''NanumGothic'')))
                 ttf_candidates
      = Some ''/usr/share/fonts/truetype/nanum/NanumGothic.ttf''"
    by (simp add: ttf_candidates_def path_exists_def)
  have second: "find (path_exists
                       ((\<lambda>p. Missing)(''/usr/share/fonts/truetype/nanum/NanumGothicBold.ttf'' := FontFile ''NanumGothicBold'')))
                  ttf_candidates
      = Some ''/usr/share/fonts/truetype/nanum/NanumGothicBold.ttf''"
    by (simp add: ttf_candidates_def path_exists_def)
  have 1: "register_korean_font_reportlab (\<lambda>p. Missing) \<lparr>pdf_fonts = Map.empty, dyn_face_names = Map.empty\<rparr>
     = Inr (''Helvetica'', \<lparr>pdf_fonts = Map.empty, dyn_face_names = Map.empty\<rparr>)"
    using t [of "\<lambda>p. Missing" "\<lparr>pdf_fonts = Map.empty, dyn_face_names = Map.empty\<rparr>"] none by simp
  have 2: "register_korean_font_reportlab
        ((\<lambda>p. Missing)(''/usr/share/fonts/truetype/nanum/NanumGothicBold.ttf'' := NotAFont,
                         ''/usr/share/fonts/truetype/noto/NotoSansCJK-Regular.ttc'' := FontFile ''NotoSansCJK''))
        \<lparr>pdf_fonts = Map.empty, dyn_face_names = Map.empty\<rparr>
     = Inl TTFError"
    using t [of "(\<lambda>p. Missing)(''/usr/share/fonts/truetype/nanum/NanumGothicBold.ttf'' := NotAFont,
                         ''/usr/share/fonts/truetype/noto/NotoSansCJK-Regular.ttc'' := FontFile ''NotoSansCJK'')"
               "\<lparr>pdf_fonts = Map.empty, dyn_face_names = Map.empty\<rparr>" "''/usr/share/fonts/truetype/nanum/NanumGothicBold.ttf''"] bad
    by simp
  have 3: "register_korean_font_reportlab
        ((\<lambda>p. Missing)(''/usr/share/fonts/truetype/nanum/NanumGothic.ttf'' := FontFile ''NanumGothic''))
        \<lparr>pdf_fonts = [''KFont'' \<mapsto> DynamicFont (TTFontObj ''KFont'' ''/opt/fonts/Other.ttf'' ''Other'')],
          dyn_face_names = [''Other'' \<mapsto> TTFontObj ''KFont'' ''/opt/fonts/Other.ttf'' ''Other'']\<rparr>
     = Inr (''KFont'',
            \<lparr>pdf_fonts = [''KFont'' \<mapsto> DynamicFont (TTFontObj ''KFont'' ''/opt/fonts/Other.ttf'' ''Other'')],
          dyn_face_names = [''Other'' \<mapsto> TTFontObj ''KFont'' ''/opt/fonts/Other.ttf'' ''Other'']\<rparr>)"
    using t [of "(\<lambda>p. Missing)(''/usr/share/fonts/truetype/nanum/NanumGothic.ttf'' := FontFile ''NanumGothic'')"
               "\<lparr>pdf_fonts = [''KFont'' \<mapsto> DynamicFont (TTFontObj ''KFont'' ''/opt/fonts/Other.ttf'' ''Other'')],
          dyn_face_names = [''Other'' \<mapsto> TTFontObj ''KFont'' ''/opt/fonts/Other.ttf'' ''Other'']\<rparr>"
               "''/usr/share/fonts/truetype/nanum/NanumGothic.ttf''" "''NanumGothic''"
               "DynamicFont (TTFontObj ''KFont'' ''/opt/fonts/Other.ttf'' ''Other'')"] first
    by simp
  have 4: "register_korean_font_reportlab
        ((\<lambda>p. Missing)(''/usr/share/fonts/truetype/nanum/NanumGothic.ttf'' := FontFile ''NanumGothic''))
        \<lparr>pdf_fonts = [''Body'' \<mapsto> DynamicFont (TTFontObj ''Body'' ''/opt/fonts/Nanum.ttf'' ''NanumGothic'')],
          dyn_face_names = [''NanumGothic'' \<mapsto> TTFontObj ''Body'' ''/opt/fonts/Nanum.ttf'' ''NanumGothic'']\<rparr>
     = Inr (''KFont'',
            \<lparr>pdf_fonts = [''Body'' \<mapsto> DynamicFont (TTFontObj ''Body'' ''/opt/fonts/Nanum.ttf'' ''NanumGothic''),
                          ''KFont'' \<mapsto> DynamicFont (TTFontObj ''Body'' ''/opt/fonts/Nanum.ttf'' ''NanumGothic'')],
             dyn_face_names = [''NanumGothic'' \<mapsto> TTFontObj ''Body'' ''/opt/fonts/Nanum.ttf'' ''NanumGothic'']\<rparr>)"
    using t [of "(\<lambda>p. Missing)(''/usr/share/fonts/truetype/nanum/NanumGothic.ttf'' := FontFile ''NanumGothic'')"
               "\<lparr>pdf_fonts = [''Body'' \<mapsto> DynamicFont (TTFontObj ''Body'' ''/opt/fonts/Nanum.ttf'' ''NanumGothic'')],
          dyn_face_names = [''NanumGothic'' \<mapsto> TTFontObj ''Body'' ''/opt/fonts/Nanum.ttf'' ''NanumGothic'']\<rparr>"
               "''/usr/share/fonts/truetype/nanum/NanumGothic.ttf''" "''NanumGothic''" _
               "TTFontObj ''Body'' ''/opt/fonts/Nanum.ttf'' ''NanumGothic''"] first
    by simp
  have 5: "register_korean_font_reportlab
        ((\<lambda>p. Missing)(''/usr/share/fonts/truetype/nanum/NanumGothicBold.ttf'' := FontFile ''NanumGothicBold''))
        \<lparr>pdf_fonts = Map.empty, dyn_face_names = Map.empty\<rparr>
     = Inr (''KFont'',
            \<lparr>pdf_fonts = [''KFont'' \<mapsto> DynamicFont (TTFontObj ''KFont''
                            ''/usr/share/fonts/truetype/nanum/NanumGothicBold.ttf'' ''NanumGothicBold'')],
             dyn_face_names = [''NanumGothicBold'' \<mapsto> TTFontObj ''KFont''
                            ''/usr/share/fonts/truetype/nanum/NanumGothicBold.ttf'' ''NanumGothicBold'']\<rparr>)"
    using t [of "(\<lambda>p. Missing)(''/usr/share/fonts/truetype/nanum/NanumGothicBold.ttf'' := FontFile ''NanumGothicBold'')"
               "\<lparr>pdf_fonts = Map.empty, dyn_face_names = Map.empty\<rparr>"
               "''/usr/share/fonts/truetype/nanum/NanumGothicBold.ttf''" "''NanumGothicBold''"] second
    by simp
  from 1 2 3 4 5 show ?thesis by blast
qed

subsection \<open>Join\<close>

lemma those_map_group:
  "those (map f xs) = Some ks \<Longrightarrow> group_of k ks xs = filter (\<lambda>x. f x = Some k) xs"
proof (induction xs arbitrary: ks)
  case Nil
  then show ?case by (simp add: group_of_def)
next
  case (Cons x xs)
  then show ?case
    by (auto simp: group_of_def split: option.splits)
qed

lemma those_map_set:
  "those (map f xs) = Some ks \<Longrightarrow> map Some ks = map f xs"
  by (induction xs arbitrary: ks) (auto split: option.splits)

lemma distinct_group_keys: "distinct (group_keys ks)" and set_group_keys: "set (group_keys ks) = set ks"
  by (simp_all add: group_keys_def)

lemma weekly_reviews_keys:
  "weekly_reviews reviews = Inr wr \<Longrightarrow> \<exists>ks. reviews_iso (map review_at reviews) = Inr ks \<and> map key_of wr = group_keys ks"
  by (auto simp: weekly_reviews_def key_of_def comp_def split: sum.splits)

lemma weekly_trend_keys:
  "weekly_trend ks t c = Inr wt \<Longrightarrow> map key_of wt = group_keys ks"
  by (auto simp: weekly_trend_def key_of_def comp_def split: option.splits dtype.splits)

lemma trend_weekly_keys:
  "trend_weekly trend = Inr (col, wt) \<Longrightarrow> \<exists>ks. trend_iso (map date (rows trend)) = Inr ks \<and> map key_of wt = group_keys ks"
  by (auto simp: trend_weekly_def with_iso_columns_def  split: sum.splits dest: weekly_trend_keys)

lemma same_key_eq: "same_key a = (\<lambda>b. iso_year b = iso_year a \<and> iso_week b = iso_week a)"
  by (auto simp: same_key_def fun_eq_iff)

lemma filter_key_distinct:
  "distinct (map key_of r) \<Longrightarrow> length (filter (\<lambda>b. key_of b = k) r) = (if k \<in> set (map key_of r) then 1 else 0)"
  by (induction r) (auto simp: image_iff)

lemma merge_inner_keys:
  assumes "distinct (map key_of r)"
  shows "map key_of (merge_inner l r) = filter (\<lambda>k. k \<in> set (map key_of r)) (map key_of l)"
proof (induction l)
  case Nil
  then show ?case by (simp add: merge_inner_def)
next
  case (Cons a l)
  have "map key_of (map (\<lambda>b. \<lparr>iso_year = iso_year a, iso_week = iso_week a,
                                   avg_score = avg_score a, review_count = review_count a,
                                   trend_mean = weekly_trend_row.trend_mean b\<rparr>)
                           (filter (same_key a) r)) = replicate (length (filter (\<lambda>b. key_of b = key_of a) r)) (key_of a)"
    by (simp add: same_key_eq comp_def key_of_def map_replicate_const)
  also have "\<dots> = (if key_of a \<in> set (map key_of r) then [key_of a] else [])"
    using filter_key_distinct[OF assms, of "key_of a"] by simp
  finally show ?case using Cons by (simp add: merge_inner_def)
qed

lemma merge_inner_card:
  assumes "distinct (map key_of l)" "distinct (map key_of r)"
  shows "length (merge_inner l r) = card (set (map key_of l) \<inter> set (map key_of r))"
proof -
  have "length (merge_inner l r) = length (map key_of (merge_inner l r))" by simp
  also have "\<dots> = length (filter (\<lambda>k. k \<in> set (map key_of r)) (map key_of l))"
    by (simp only: merge_inner_keys[OF assms(2)])
  also have "\<dots> = card ({k. k \<in> set (map key_of r)} \<inter> set (map key_of l))"
    using assms(1) by (rule distinct_length_filter)
  finally show ?thesis by (simp add: Int_commute)
qed

lemma key_of_add_week_index: "key_of (add_week_index j) = key_of j"
  by (simp add: add_week_index_def key_of_def)


text \<open>
  Claim C2.  The join is an inner join on the week key.  For the two weekly aggregates
  that the loader computes, the joined table has as many rows as there are keys present
  in both aggregates, its keys are exactly those common keys, each once; so a key of only
  one aggregate is no key of the joined table.  Adding the week index changes no key.
\<close>

theorem merged_is_inner_join:
  assumes "weekly_reviews reviews = Inr wr" and "trend_weekly trend = Inr (col, wt)"
  shows "merged_table reviews trend = Inr (col, map add_week_index (merge_inner wr wt))
       \<and> length (merge_inner wr wt) = card (set (map key_of wr) \<inter> set (map key_of wt))
       \<and> set (map key_of (merge_inner wr wt)) = set (map key_of wr) \<inter> set (map key_of wt)
       \<and> distinct (map key_of (merge_inner wr wt))"
proof -
  from assms(1) have dl: "distinct (map key_of wr)"
    using weekly_reviews_keys distinct_group_keys by fastforce
  from assms(2) have dr: "distinct (map key_of wt)"
    using trend_weekly_keys distinct_group_keys by fastforce
  have keys: "map key_of (merge_inner wr wt) = filter (\<lambda>k. k \<in> set (map key_of wt)) (map key_of wr)"
    by (rule merge_inner_keys[OF dr])
  have "merged_table reviews trend = Inr (col, map add_week_index (merge_inner wr wt))"
    using assms by (simp add: merged_table_def)
  moreover have "length (merge_inner wr wt) = card (set (map key_of wr) \<inter> set (map key_of wt))"
    by (rule merge_inner_card[OF dl dr])
  moreover have "set (map key_of (merge_inner wr wt)) = set (map key_of wr) \<inter> set (map key_of wt)"
    unfolding keys by auto
  moreover have "distinct (map key_of (merge_inner wr wt))"
    unfolding keys using dl by (rule distinct_filter)
  ultimately show ?thesis by blast
qed

theorem merged_is_inner_join_witness:
  "merged_table
     [\<lparr>review_at = Stamp 2024 1 3, score = Some 5\<rparr>,
      \<lparr>review_at = Stamp 2024 1 10, score = Some 3\<rparr>]
     \<lparr>columns = [(''metric'', Numeric)],
      rows = [\<lparr>date = Stamp 2024 1 10, cells = (\<lambda>c. None)(''metric'' := Some 10)\<rparr>,
              \<lparr>date = Stamp 2024 1 17, cells = (\<lambda>c. None)(''metric'' := Some 20)\<rparr>]\<rparr>
    = Inr (Some ''metric'',
           map add_week_index
             (merge_inner
                [\<lparr>iso_year = 2024, iso_week = 1, avg_score = Some 5, review_count = 1\<rparr>,
                 \<lparr>iso_year = 2024, iso_week = 2, avg_score = Some 3, review_count = 1\<rparr>]
                [\<lparr>iso_year = 2024, iso_week = 2, weekly_trend_row.trend_mean = Some 10\<rparr>,
                 \<lparr>iso_year = 2024, iso_week = 3, weekly_trend_row.trend_mean = Some 20\<rparr>]))
   \<and> length
        (merge_inner
           [\<lparr>iso_year = 2024, iso_week = 1, avg_score = Some 5, review_count = 1\<rparr>,
            \<lparr>iso_year = 2024, iso_week = 2, avg_score = Some 3, review_count = 1\<rparr>]
           [\<lparr>iso_year = 2024, iso_week = 2, weekly_trend_row.trend_mean = Some 10\<rparr>,
            \<lparr>iso_year = 2024, iso_week = 3, weekly_trend_row.trend_mean = Some 20\<rparr>])
      = card {(2024::int, 2::int)}"
proof -
  have wr: "weekly_reviews
     [\<lparr>review_at = Stamp 2024 1 3, score = Some 5\<rparr>,
      \<lparr>review_at = Stamp 2024 1 10, score = Some 3\<rparr>]
    = Inr [\<lparr>iso_year = 2024, iso_week = 1, avg_score = Some 5, review_count = 1\<rparr>,
           \<lparr>iso_year = 2024, iso_week = 2, avg_score = Some 3, review_count = 1\<rparr>]"
    by (simp add: weekly_reviews_def reviews_iso_def iso_2024_01_03 iso_2024_01_10
        aggregate_defs)
  have wt: "trend_weekly
     \<lparr>columns = [(''metric'', Numeric)],
      rows = [\<lparr>date = Stamp 2024 1 10, cells = (\<lambda>c. None)(''metric'' := Some 10)\<rparr>,
              \<lparr>date = Stamp 2024 1 17, cells = (\<lambda>c. None)(''metric'' := Some 20)\<rparr>]\<rparr>
    = Inr (Some ''metric'',
           [\<lparr>iso_year = 2024, iso_week = 2, weekly_trend_row.trend_mean = Some 10\<rparr>,
            \<lparr>iso_year = 2024, iso_week = 3, weekly_trend_row.trend_mean = Some 20\<rparr>])"
    by (simp add: trend_defs iso_2024_01_10 iso_2024_01_17 aggregate_defs)
  have "{(2024::int, 1::int), (2024, 2)} \<inter> {(2024, 2), (2024, 3)} = {(2024, 2)}"
    by auto
  with merged_is_inner_join [OF wr wt] show ?thesis
    by (simp add: key_of_def)
qed

subsection \<open>Weekly review aggregate\<close>

lemma filter_score_present:
  "present (map score rs) = map (\<lambda>r. the (score r)) (filter (\<lambda>r. score r \<noteq> None) rs)"
  by (simp add: present_def filter_map comp_def)

lemma weekly_reviews_row:
  assumes "weekly_reviews reviews = Inr wr" and "w \<in> set wr"
  shows "avg_score w = mean_skipna (map score (filter (\<lambda>r. iso_key (review_at r) = Some (key_of w)) reviews))
       \<and> review_count w = length (filter (\<lambda>r. iso_key (review_at r) = Some (key_of w)) reviews)"
proof -
  from assms(1) obtain ks where ks: "those (map iso_key (map review_at reviews)) = Some ks"
    and wr: "wr = map (\<lambda>k. \<lparr>iso_year = fst k, iso_week = snd k,
                          avg_score = mean_skipna (map score (group_of k ks reviews)),
                          review_count = length (group_of k ks reviews)\<rparr>) (group_keys ks)"
    by (auto simp: weekly_reviews_def reviews_iso_def split: if_splits option.splits)
  have grp: "group_of k ks reviews = filter (\<lambda>r. iso_key (review_at r) = Some k) reviews" for k
    using those_map_group[of "iso_key \<circ> review_at" reviews ks k] ks by (simp add: comp_def)
  from assms(2) wr show ?thesis
    by (auto simp: grp key_of_def)
qed

text \<open>
  Claim C10.  In a row of the weekly review aggregate, \<open>review_count\<close> is the number of
  all review rows of that ISO week, a missing score included, and \<open>avg_score\<close> is the mean
  of the scores that are not missing (NaN when there is none).  So the count is at least
  the number of values averaged, and it is larger as soon as a score is missing (the
  witness: two rows, one score).
\<close>

theorem review_count_counts_rows_avg_skips_missing:
  assumes "weekly_reviews reviews = Inr wr" and "w \<in> set wr"
  shows "let grp = filter (\<lambda>r. iso_key (review_at r) = Some (key_of w)) reviews;
             vals = map (\<lambda>r. the (score r)) (filter (\<lambda>r. score r \<noteq> None) grp)
         in review_count w = length grp
          \<and> avg_score w = (if vals = [] then None else Some (sum_list vals / of_nat (length vals)))
          \<and> length vals \<le> review_count w"
proof -
  define grp where "grp = filter (\<lambda>r. iso_key (review_at r) = Some (key_of w)) reviews"
  define vals where "vals = map (\<lambda>r. the (score r)) (filter (\<lambda>r. score r \<noteq> None) grp)"
  have row: "avg_score w = mean_skipna (map score grp)" "review_count w = length grp"
    using weekly_reviews_row[OF assms] by (simp_all add: grp_def)
  have p: "present (map score grp) = vals"
    by (simp add: vals_def filter_score_present)
  have "avg_score w = (if vals = [] then None else Some (sum_list vals / of_nat (length vals)))"
    by (simp only: row(1) mean_skipna_def p)
  moreover have "length vals \<le> review_count w"
    by (simp add: vals_def row(2))
  ultimately show ?thesis
    using row(2) unfolding Let_def grp_def [symmetric] vals_def [symmetric] by blast
qed

theorem review_count_counts_rows_avg_skips_missing_witness:
  "weekly_reviews
     [\<lparr>review_at = Stamp 2024 1 3, score = Some 5\<rparr>,
      \<lparr>review_at = Stamp 2024 1 4, score = None\<rparr>]
    = Inr [\<lparr>iso_year = 2024, iso_week = 1, avg_score = Some 5, review_count = 2\<rparr>]
   \<and> length
        (map (\<lambda>r. the (score r))
           (filter (\<lambda>r. score r \<noteq> None)
              (filter (\<lambda>r. iso_key (review_at r) = Some (2024, 1))
                 [\<lparr>review_at = Stamp 2024 1 3, score = Some 5\<rparr>,
                  \<lparr>review_at = Stamp 2024 1 4, score = None\<rparr>]))) = 1
   \<and> review_count \<lparr>iso_year = 2024, iso_week = 1, avg_score = Some 5, review_count = 2\<rparr> = 2"
proof -
  have wr: "weekly_reviews
     [\<lparr>review_at = Stamp 2024 1 3, score = Some 5\<rparr>,
      \<lparr>review_at = Stamp 2024 1 4, score = None\<rparr>]
    = Inr [\<lparr>iso_year = 2024, iso_week = 1, avg_score = Some 5, review_count = 2\<rparr>]"
    by (simp add: weekly_reviews_def reviews_iso_def iso_2024_01_03 iso_2024_01_04
        aggregate_defs)
  from review_count_counts_rows_avg_skips_missing
         [OF wr, of "\<lparr>iso_year = 2024, iso_week = 1, avg_score = Some 5, review_count = 2\<rparr>"]
  show ?thesis
    by (simp add: wr key_of_def iso_2024_01_03 iso_2024_01_04)
qed

subsection \<open>The week key\<close>

lemma those_iso_key_member:
  "those (map iso_key ats) = Some ks \<Longrightarrow> a \<in> set ats \<Longrightarrow>
     \<exists>y m d. a = Stamp y m d \<and> isocalendar y m d \<in> set ks"
proof (induction ats arbitrary: ks)
  case Nil
  then show ?case by simp
next
  case (Cons b ats)
  then show ?case
    by (cases b) (auto split: option.splits)
qed

lemma reviews_iso_member:
  "reviews_iso ats = Inr ks \<Longrightarrow> a \<in> set ats \<Longrightarrow>
     \<exists>y m d. a = Stamp y m d \<and> isocalendar y m d \<in> set ks"
  by (auto simp: reviews_iso_def split: if_splits option.splits dest: those_iso_key_member)

lemma trend_iso_member:
  "trend_iso ats = Inr ks \<Longrightarrow> a \<in> set ats \<Longrightarrow>
     \<exists>y m d. a = Stamp y m d \<and> isocalendar y m d \<in> set ks"
  by (auto simp: trend_iso_def split: if_splits option.splits dest: those_iso_key_member)

text \<open>
  Claim C9.  The week key of a row is the pair (ISO year, ISO week) of its date, in the
  review table and in the trend table alike: every input row's ISO pair is a key of the
  weekly aggregate.  The year of the key is the ISO year, which differs from the calendar
  year at the turn of the year: 2021-01-01 has the key (2020, 53), and 2024-12-30 has the
  key (2025, 1).
\<close>

theorem week_key_is_iso_year_and_week:
  assumes "weekly_reviews reviews = Inr wr" and "r \<in> set reviews"
      and "trend_weekly trend = Inr (col, wt)" and "t \<in> set (rows trend)"
  shows "(\<exists>y m d. review_at r = Stamp y m d \<and> isocalendar y m d \<in> set (map key_of wr))
       \<and> (\<exists>y m d. date t = Stamp y m d \<and> isocalendar y m d \<in> set (map key_of wt))
       \<and> isocalendar 2021 1 1 = (2020, 53)
       \<and> isocalendar 2024 12 30 = (2025, 1)"
proof -
  from assms(1) obtain ks where ks: "reviews_iso (map review_at reviews) = Inr ks"
      and wr: "map key_of wr = group_keys ks"
    using weekly_reviews_keys by blast
  from assms(2) have "review_at r \<in> set (map review_at reviews)" by simp
  from reviews_iso_member[OF ks this]
  have a: "\<exists>y m d. review_at r = Stamp y m d \<and> isocalendar y m d \<in> set (map key_of wr)"
    by (simp only: wr set_group_keys)
  from assms(3) obtain ks' where ks': "trend_iso (map date (rows trend)) = Inr ks'"
      and wt: "map key_of wt = group_keys ks'"
    using trend_weekly_keys by blast
  from assms(4) have "date t \<in> set (map date (rows trend))" by simp
  from trend_iso_member[OF ks' this]
  have b: "\<exists>y m d. date t = Stamp y m d \<and> isocalendar y m d \<in> set (map key_of wt)"
    by (simp only: wt set_group_keys)
  from a b show ?thesis
    by (simp only: iso_2021_01_01 iso_2024_12_30 simp_thms)
qed

theorem week_key_is_iso_year_and_week_witness:
  "weekly_reviews [\<lparr>review_at = Stamp 2021 1 1, score = Some 4\<rparr>]
     = Inr [\<lparr>iso_year = 2020, iso_week = 53, avg_score = Some 4, review_count = 1\<rparr>]
   \<and> trend_weekly
        \<lparr>columns = [(''metric'', Numeric)],
         rows = [\<lparr>date = Stamp 2024 12 30, cells = (\<lambda>c. None)(''metric'' := Some 10)\<rparr>]\<rparr>
     = Inr (Some ''metric'',
            [\<lparr>iso_year = 2025, iso_week = 1, weekly_trend_row.trend_mean = Some 10\<rparr>])
   \<and> (\<exists>y m d. Stamp 2021 1 1 = Stamp y m d \<and> isocalendar y m d = (2020, 53))
   \<and> (\<exists>y m d. Stamp 2024 12 30 = Stamp y m d \<and> isocalendar y m d = (2025, 1))"
proof -
  have wr: "weekly_reviews [\<lparr>review_at = Stamp 2021 1 1, score = Some 4\<rparr>]
     = Inr [\<lparr>iso_year = 2020, iso_week = 53, avg_score = Some 4, review_count = 1\<rparr>]"
    by (simp add: weekly_reviews_def reviews_iso_def iso_2021_01_01 aggregate_defs)
  have wt: "trend_weekly
        \<lparr>columns = [(''metric'', Numeric)],
         rows = [\<lparr>date = Stamp 2024 12 30, cells = (\<lambda>c. None)(''metric'' := Some 10)\<rparr>]\<rparr>
     = Inr (Some ''metric'',
            [\<lparr>iso_year = 2025, iso_week = 1, weekly_trend_row.trend_mean = Some 10\<rparr>])"
    by (simp add: trend_defs iso_2024_12_30 aggregate_defs)
  from week_key_is_iso_year_and_week
         [OF wr _ wt, of "\<lparr>review_at = Stamp 2021 1 1, score = Some 4\<rparr>"
            "\<lparr>date = Stamp 2024 12 30, cells = (\<lambda>c. None)(''metric'' := Some 10)\<rparr>"]
  show ?thesis
    by (simp add: wr wt key_of_def)
qed

subsection \<open>The trend metric column\<close>












subsection \<open>Degenerate merged tables\<close>

lemma pearsonr_short:
  "length x < 2 \<Longrightarrow> pearsonr lib x y = Inl ValueError"
  by (simp add: pearsonr_def)

lemma pearsonr_constant:
  "length x = length y \<Longrightarrow> 2 \<le> length x \<Longrightarrow> constant_input x \<or> constant_input y \<Longrightarrow>
     pearsonr lib x y = Inr (NaN, NaN)"
  by (simp add: pearsonr_def)

lemma spearmanr_constant:
  "length x = length y \<Longrightarrow> constant_input x \<or> constant_input y \<Longrightarrow>
     spearmanr lib x y = Inr (NaN, NaN)"
  by (simp add: spearmanr_def)

lemma main_after_merge:
  "merged_table reviews trend = Inr (col, merged) \<Longrightarrow>
   main lib fs registry reviews trend =
     (case correlations lib merged of
        Inl e \<Rightarrow> Inl e
      | Inr (p, s) \<Rightarrow>
          (case register_korean_font_reportlab fs registry of
             Inl e \<Rightarrow> Inl e
           | Inr (name, registry') \<Rightarrow>
               Inr (\<lparr>data_row = data_row_text col, pearson_row = p, spearman_row = s,
                     font_name = name\<rparr>,
                    registry')))"
  by (simp add: main_def)

text \<open>
  Claim C1, as the code has it.  Lines 111 and 112 call the two correlation functions on
  the merged table without a guard or a handler.  A merged table of fewer than two rows
  (the empty one included) makes \<^verbatim>\<open>pearsonr\<close> raise a ValueError, which ends the run
  before any output is written.  A merged table of two or more rows whose trend means or
  whose mean scores are constant gives NaN for all four scalars, and the run goes on with
  them: past the font registration of line 146, the document it builds holds NaN in both
  rows of its statistics table.
\<close>

theorem degenerate_join_raises_or_nan:
  assumes "merged_table reviews trend = Inr (col, merged)"
  shows "(length merged < 2 \<longrightarrow>
            correlations lib merged = Inl ValueError
            \<and> main lib fs registry reviews trend = Inl ValueError)
       \<and> (2 \<le> length merged
            \<and> (constant_input (map trend_mean merged) \<or> constant_input (map avg_score merged)) \<longrightarrow>
            correlations lib merged = Inr ((NaN, NaN), (NaN, NaN))
            \<and> main lib fs registry reviews trend =
                (case register_korean_font_reportlab fs registry of
                   Inl e \<Rightarrow> Inl e
                 | Inr (name, registry') \<Rightarrow>
                     Inr (\<lparr>data_row = data_row_text col,
                           pearson_row = (NaN, NaN), spearman_row = (NaN, NaN),
                           font_name = name\<rparr>,
                          registry'))
            \<and> (\<forall>rep registry'. main lib fs registry reviews trend = Inr (rep, registry') \<longrightarrow>
                  pearson_row rep = (NaN, NaN) \<and> spearman_row rep = (NaN, NaN)))"
proof (intro conjI impI allI)
  assume short: "length merged < 2"
  then show c: "correlations lib merged = Inl ValueError"
    by (simp add: correlations_def pearsonr_short)
  show "main lib fs registry reviews trend = Inl ValueError"
    by (simp add: main_after_merge[OF assms] c)
next
  assume deg: "2 \<le> length merged
            \<and> (constant_input (map trend_mean merged) \<or> constant_input (map avg_score merged))"
  then show c: "correlations lib merged = Inr ((NaN, NaN), (NaN, NaN))"
    by (simp add: correlations_def pearsonr_constant spearmanr_constant)
  show m: "main lib fs registry reviews trend =
                (case register_korean_font_reportlab fs registry of
                   Inl e \<Rightarrow> Inl e
                 | Inr (name, registry') \<Rightarrow>
                     Inr (\<lparr>data_row = data_row_text col,
                           pearson_row = (NaN, NaN), spearman_row = (NaN, NaN),
                           font_name = name\<rparr>,
                          registry'))"
    by (simp add: main_after_merge[OF assms] c)
  fix rep registry'
  assume "main lib fs registry reviews trend = Inr (rep, registry')"
  with m show "pearson_row rep = (NaN, NaN)" and "spearman_row rep = (NaN, NaN)"
    by (auto split: sum.splits prod.splits)
qed

lemma merged_no_shared_week:
  "merged_table
        [\<lparr>review_at = Stamp 2024 1 3, score = Some 5\<rparr>]
        \<lparr>columns = [(''metric'', Numeric)],
         rows = [\<lparr>date = Stamp 2024 2 7, cells = (\<lambda>c. None)(''metric'' := Some 10)\<rparr>]\<rparr>
     = Inr (Some ''metric'', [])"
  by (simp add: merged_table_def weekly_reviews_def reviews_iso_def trend_defs
      iso_2024_01_03 iso_2024_02_07 aggregate_defs join_defs)

lemma merged_constant_trend:
  "merged_table
        [\<lparr>review_at = Stamp 2024 1 3, score = Some 5\<rparr>,
         \<lparr>review_at = Stamp 2024 1 10, score = Some 3\<rparr>]
        \<lparr>columns = [(''metric'', Numeric)],
         rows = [\<lparr>date = Stamp 2024 1 3, cells = (\<lambda>c. None)(''metric'' := Some 10)\<rparr>,
                 \<lparr>date = Stamp 2024 1 10, cells = (\<lambda>c. None)(''metric'' := Some 10)\<rparr>]\<rparr>
     = Inr (Some ''metric'',
              [\<lparr>iso_year = 2024, iso_week = 1, avg_score = Some 5, review_count = 1,
                trend_mean = Some 10, week_index = 202401\<rparr>,
               \<lparr>iso_year = 2024, iso_week = 2, avg_score = Some 3, review_count = 1,
                trend_mean = Some 10, week_index = 202402\<rparr>])"
  by (simp add: merged_table_def weekly_reviews_def reviews_iso_def trend_defs
      iso_2024_01_03 iso_2024_01_10 aggregate_defs join_defs)

text \<open>
  The claim that a degenerate merged table leads to neither a crash nor a NaN in the
  document fails on both counts: reviews of week 1 and a trend of week 6 share no week,
  and the run ends with the ValueError; two shared weeks of the same trend mean give a
  document whose statistics rows hold NaN.
\<close>

theorem degenerate_join_counterexample:
  "main \<lparr>pearson_fin = (\<lambda>x y. (Fin 0, Fin 1)), spearman_fin = (\<lambda>x y. (Fin 0, Fin 1))\<rparr>
        (\<lambda>p. Missing) \<lparr>pdf_fonts = Map.empty, dyn_face_names = Map.empty\<rparr>
        [\<lparr>review_at = Stamp 2024 1 3, score = Some 5\<rparr>]
        \<lparr>columns = [(''metric'', Numeric)],
         rows = [\<lparr>date = Stamp 2024 2 7, cells = (\<lambda>c. None)(''metric'' := Some 10)\<rparr>]\<rparr>
     = Inl ValueError
   \<and> main \<lparr>pearson_fin = (\<lambda>x y. (Fin 0, Fin 1)), spearman_fin = (\<lambda>x y. (Fin 0, Fin 1))\<rparr>
        (\<lambda>p. Missing) \<lparr>pdf_fonts = Map.empty, dyn_face_names = Map.empty\<rparr>
        [\<lparr>review_at = Stamp 2024 1 3, score = Some 5\<rparr>,
         \<lparr>review_at = Stamp 2024 1 10, score = Some 3\<rparr>]
        \<lparr>columns = [(''metric'', Numeric)],
         rows = [\<lparr>date = Stamp 2024 1 3, cells = (\<lambda>c. None)(''metric'' := Some 10)\<rparr>,
                 \<lparr>date = Stamp 2024 1 10, cells = (\<lambda>c. None)(''metric'' := Some 10)\<rparr>]\<rparr>
     = Inr (\<lparr>data_row = data_row_prefix @ ''metric'' @ data_row_suffix,
              pearson_row = (NaN, NaN), spearman_row = (NaN, NaN),
              font_name = ''Helvetica''\<rparr>,
            \<lparr>pdf_fonts = Map.empty, dyn_face_names = Map.empty\<rparr>)"
  by (simp add: main_after_merge[OF merged_no_shared_week]
      main_after_merge[OF merged_constant_trend] stats_defs
      font_defs data_row_text_def py_str_def)

theorem degenerate_join_raises_or_nan_witness:
  "correlations \<lparr>pearson_fin = (\<lambda>x y. (Fin 0, Fin 1)), spearman_fin = (\<lambda>x y. (Fin 0, Fin 1))\<rparr> []
     = Inl ValueError
   \<and> main \<lparr>pearson_fin = (\<lambda>x y. (Fin 0, Fin 1)), spearman_fin = (\<lambda>x y. (Fin 0, Fin 1))\<rparr>
        (\<lambda>p. Missing) \<lparr>pdf_fonts = Map.empty, dyn_face_names = Map.empty\<rparr>
        [\<lparr>review_at = Stamp 2024 1 3, score = Some 5\<rparr>]
        \<lparr>columns = [(''metric'', Numeric)],
         rows = [\<lparr>date = Stamp 2024 2 7, cells = (\<lambda>c. None)(''metric'' := Some 10)\<rparr>]\<rparr>
     = Inl ValueError
   \<and> correlations \<lparr>pearson_fin = (\<lambda>x y. (Fin 0, Fin 1)), spearman_fin = (\<lambda>x y. (Fin 0, Fin 1))\<rparr>
              [\<lparr>iso_year = 2024, iso_week = 1, avg_score = Some 5, review_count = 1,
                trend_mean = Some 10, week_index = 202401\<rparr>,
               \<lparr>iso_year = 2024, iso_week = 2, avg_score = Some 3, review_count = 1,
                trend_mean = Some 10, week_index = 202402\<rparr>]
     = Inr ((NaN, NaN), (NaN, NaN))
   \<and> (\<exists>rep registry'.
        main \<lparr>pearson_fin = (\<lambda>x y. (Fin 0, Fin 1)), spearman_fin = (\<lambda>x y. (Fin 0, Fin 1))\<rparr>
          (\<lambda>p. Missing) \<lparr>pdf_fonts = Map.empty, dyn_face_names = Map.empty\<rparr>
          [\<lparr>review_at = Stamp 2024 1 3, score = Some 5\<rparr>,
         \<lparr>review_at = Stamp 2024 1 10, score = Some 3\<rparr>]
          \<lparr>columns = [(''metric'', Numeric)],
         rows = [\<lparr>date = Stamp 2024 1 3, cells = (\<lambda>c. None)(''metric'' := Some 10)\<rparr>,
                 \<lparr>date = Stamp 2024 1 10, cells = (\<lambda>c. None)(''metric'' := Some 10)\<rparr>]\<rparr>
        = Inr (rep, registry')
        \<and> pearson_row rep = (NaN, NaN) \<and> spearman_row rep = (NaN, NaN))"
  using degenerate_join_raises_or_nan [OF merged_no_shared_week, THEN conjunct1,
          of "\<lparr>pearson_fin = (\<lambda>x y. (Fin 0, Fin 1)),
               spearman_fin = (\<lambda>x y. (Fin 0, Fin 1))\<rparr>"
             "\<lambda>p. Missing"
             "\<lparr>pdf_fonts = Map.empty, dyn_face_names = Map.empty\<rparr>"]
        degenerate_join_raises_or_nan [OF merged_constant_trend, THEN conjunct2,
          of "\<lparr>pearson_fin = (\<lambda>x y. (Fin 0, Fin 1)),
               spearman_fin = (\<lambda>x y. (Fin 0, Fin 1))\<rparr>"
             "\<lambda>p. Missing"
             "\<lparr>pdf_fonts = Map.empty, dyn_face_names = Map.empty\<rparr>"]
  by (simp add: constant_input_def font_defs)

subsection \<open>Data errors\<close>

text \<open>
  Nothing in \<^verbatim>\<open>main\<close> catches an error of the loading steps, and text that is no date in
  either time column is such an error.  The metric column of line 99, however, is never
  \<open>None\<close>: the list of numeric columns is taken after the two derived integer columns
  were added, so it is never empty.
\<close>

lemma main_propagates_error:
  "merged_table reviews trend = Inl e \<Longrightarrow> main lib fs registry reviews trend = Inl e"
  by (simp add: main_def)

lemma unparseable_review_time_is_fatal:
  "Garbage \<in> set (map review_at reviews) \<Longrightarrow>
     main lib fs registry reviews trend = Inl AttributeError"
  by (rule main_propagates_error) (simp add: merged_table_def weekly_reviews_def reviews_iso_def)

lemma unparseable_trend_date_is_fatal:
  "weekly_reviews reviews = Inr wr \<Longrightarrow> Garbage \<in> set (map date (rows trend)) \<Longrightarrow>
     main lib fs registry reviews trend = Inl ValueError"
  by (rule main_propagates_error)
     (simp add: merged_table_def trend_weekly_def with_iso_columns_def trend_iso_def)

text \<open>
  Claim C4, at a trend file without any numeric column (a date column and a text column,
  two weeks of two different ISO years): no error is raised.  The derived column
  \<^verbatim>\<open>iso_year\<close> is taken as the metric, its weekly mean becomes the trend mean, and the
  run produces the document, naming \<^verbatim>\<open>iso_year\<close> as the trend index.
\<close>

theorem no_numeric_column_uses_iso_year:
  "trend_weekly
        \<lparr>columns = [(''label'', Object)],
         rows = [\<lparr>date = Stamp 2023 12 27, cells = (\<lambda>c. None)\<rparr>,
                 \<lparr>date = Stamp 2024 1 3, cells = (\<lambda>c. None)\<rparr>]\<rparr>
     = Inr (Some ''iso_year'',
             [\<lparr>iso_year = 2023, iso_week = 52, weekly_trend_row.trend_mean = Some 2023\<rparr>,
              \<lparr>iso_year = 2024, iso_week = 1, weekly_trend_row.trend_mean = Some 2024\<rparr>])
   \<and> main \<lparr>pearson_fin = (\<lambda>x y. (Fin 0, Fin 1)), spearman_fin = (\<lambda>x y. (Fin 0, Fin 1))\<rparr>
        (\<lambda>p. Missing) \<lparr>pdf_fonts = Map.empty, dyn_face_names = Map.empty\<rparr>
        [\<lparr>review_at = Stamp 2023 12 27, score = Some 5\<rparr>,
         \<lparr>review_at = Stamp 2024 1 3, score = Some 3\<rparr>]
        \<lparr>columns = [(''label'', Object)],
         rows = [\<lparr>date = Stamp 2023 12 27, cells = (\<lambda>c. None)\<rparr>,
                 \<lparr>date = Stamp 2024 1 3, cells = (\<lambda>c. None)\<rparr>]\<rparr>
     = Inr (\<lparr>data_row = data_row_prefix @ ''iso_year'' @ data_row_suffix,
              pearson_row = (Fin 0, Fin 1), spearman_row = (Fin 0, Fin 1),
              font_name = ''Helvetica''\<rparr>,
            \<lparr>pdf_fonts = Map.empty, dyn_face_names = Map.empty\<rparr>)"
proof -
  have wr: "weekly_reviews
        [\<lparr>review_at = Stamp 2023 12 27, score = Some 5\<rparr>,
         \<lparr>review_at = Stamp 2024 1 3, score = Some 3\<rparr>]
      = Inr [\<lparr>iso_year = 2023, iso_week = 52, avg_score = Some 5, review_count = 1\<rparr>,
             \<lparr>iso_year = 2024, iso_week = 1, avg_score = Some 3, review_count = 1\<rparr>]"
    by (simp add: weekly_reviews_def reviews_iso_def iso_2023_12_27 iso_2024_01_03
        aggregate_defs)
  have wt: "trend_weekly
        \<lparr>columns = [(''label'', Object)],
         rows = [\<lparr>date = Stamp 2023 12 27, cells = (\<lambda>c. None)\<rparr>,
                 \<lparr>date = Stamp 2024 1 3, cells = (\<lambda>c. None)\<rparr>]\<rparr>
     = Inr (Some ''iso_year'',
             [\<lparr>iso_year = 2023, iso_week = 52, weekly_trend_row.trend_mean = Some 2023\<rparr>,
              \<lparr>iso_year = 2024, iso_week = 1, weekly_trend_row.trend_mean = Some 2024\<rparr>])"
    by (simp add: trend_defs iso_2023_12_27 iso_2024_01_03 aggregate_defs)
  show ?thesis
    by (simp add: wt main_def merged_table_def wr join_defs stats_defs
        font_defs data_row_text_def py_str_def)
qed

end
